theory Spec2Isabelle
  imports Main "HOL-Library.AList"
begin

text \<open>
  An embedding of \<open>adventure_debug_bot.py\<close>: the session dataclass, the two persistence
  functions, the three tasks, the command handlers and the message router. The globals
  become a state record that every handler takes and returns; what lies outside the program
  (the generator behind \<open>call_groq_api\<close>, the Bot API, the disk, the random choice) is an
  environment that a handler is run in, so that every statement holds for whatever the
  outside does unless it says otherwise; an exception is a value next to the state reached
  when it was raised.
\<close>

section \<open>Python values\<close>

text \<open>
  A Python \<open>str\<close> is a sequence of Unicode code points, so it is modelled as a list of
  naturals (the button labels of the bot are Persian text with emoji, far beyond Latin-1).
  \<open>str\<close> embeds an ASCII literal.
\<close>

type_synonym pystr = "nat list"

definition str :: "string \<Rightarrow> pystr" where
  "str s = map of_char s"

text \<open>
  The values that \<open>json.loads\<close> / \<open>json.load\<close> can produce. Python does not enforce the
  annotations of a dataclass, so these are also the values a field of a session can hold.
  JSON numbers with a fraction or an exponent (Python floats) are outside the model.
\<close>

datatype pyval =
    PNone
  | PBool bool
  | PInt int
  | PStr pystr
  | PList "pyval list"
  | PDict "(pystr \<times> pyval) list"

datatype exn =
    AttributeErrorNoSession   \<comment> \<open>a field read from the \<open>None\<close> that \<open>user_sessions.get\<close> returned\<close>
  | AttributeErrorNoMethod    \<comment> \<open>\<open>.split\<close> / \<open>.items\<close> on a value that has no such method\<close>
  | TypeError
  | ValueError
  | KeyError
  | UnicodeDecodeError
  | TelegramError             \<comment> \<open>any exception raised by a call of the Bot API\<close>

text \<open>Truth value testing (\<open>if x:\<close>, \<open>not x\<close>).\<close>

fun py_truthy :: "pyval \<Rightarrow> bool" where
  "py_truthy PNone = False"
| "py_truthy (PBool b) = b"
| "py_truthy (PInt i) = (i \<noteq> 0)"
| "py_truthy (PStr s) = (s \<noteq> [])"
| "py_truthy (PList xs) = (xs \<noteq> [])"
| "py_truthy (PDict kvs) = (kvs \<noteq> [])"

text \<open>\<open>x += 1\<close> and \<open>x > 5\<close>: defined on \<open>int\<close> and its subclass \<open>bool\<close>, a \<open>TypeError\<close> elsewhere.\<close>

fun py_add1 :: "pyval \<Rightarrow> exn + pyval" where
  "py_add1 (PInt i) = Inr (PInt (i + 1))"
| "py_add1 (PBool b) = Inr (PInt ((if b then 1 else 0) + 1))"
| "py_add1 PNone = Inl TypeError"
| "py_add1 (PStr s) = Inl TypeError"
| "py_add1 (PList xs) = Inl TypeError"
| "py_add1 (PDict kvs) = Inl TypeError"

fun py_gt :: "pyval \<Rightarrow> int \<Rightarrow> exn + bool" where
  "py_gt (PInt i) k = Inr (i > k)"
| "py_gt (PBool b) k = Inr ((if b then 1 else 0) > k)"
| "py_gt PNone k = Inl TypeError"
| "py_gt (PStr s) k = Inl TypeError"
| "py_gt (PList xs) k = Inl TypeError"
| "py_gt (PDict kvs) k = Inl TypeError"


section \<open>Strings: whitespace, \<open>split\<close>, \<open>str(int)\<close> and \<open>int(str)\<close>\<close>

text \<open>The code points for which \<open>str.isspace\<close> holds; \<open>str.split()\<close> separates at these.\<close>

definition py_isspace :: "nat \<Rightarrow> bool" where
  "py_isspace c \<longleftrightarrow>
     (9 \<le> c \<and> c \<le> 13) \<or> (28 \<le> c \<and> c \<le> 32) \<or> c = 133 \<or> c = 160 \<or> c = 5760 \<or>
     (8192 \<le> c \<and> c \<le> 8202) \<or> c = 8232 \<or> c = 8233 \<or> c = 8239 \<or> c = 8287 \<or> c = 12288"

text \<open>
  \<open>s.split()\<close>: the maximal runs of non-whitespace, in order. \<open>split_from w s\<close> scans \<open>s\<close>
  with \<open>w\<close> the word read so far.
\<close>

fun split_from :: "pystr \<Rightarrow> pystr \<Rightarrow> pystr list" where
  "split_from w [] = (if w = [] then [] else [w])"
| "split_from w (c # cs) =
     (if py_isspace c then (if w = [] then split_from [] cs else w # split_from [] cs)
      else split_from (w @ [c]) cs)"

definition py_split :: "pystr \<Rightarrow> pystr list" where
  "py_split s = split_from [] s"

text \<open>\<open>"".join(code.split())\<close>\<close>

definition normalize_code :: "pystr \<Rightarrow> pystr" where
  "normalize_code code = concat (py_split code)"

text \<open>The spec's wording of the same normalization: remove every whitespace character.\<close>

definition remove_all_whitespace :: "pystr \<Rightarrow> pystr" where
  "remove_all_whitespace s = filter (\<lambda>c. \<not> py_isspace c) s"

text \<open>\<open>str(n)\<close> of an integer, as \<open>json.dump\<close> writes an integer key.\<close>

fun digits10 :: "nat \<Rightarrow> pystr" where
  "digits10 n = (if n < 10 then [48 + n] else digits10 (n div 10) @ [48 + n mod 10])"

declare digits10.simps [simp del]

definition py_str_int :: "int \<Rightarrow> pystr" where
  "py_str_int i = (if i < 0 then 45 # digits10 (nat (- i)) else digits10 (nat i))"

text \<open>
  \<open>int(s)\<close> of a string: surrounding whitespace is stripped, one sign is allowed, the
  digits may be grouped by single underscores. \<open>None\<close> stands for the \<open>ValueError\<close>.
  (Only ASCII digits are modelled; the limit on the number of digits is not.)
\<close>

definition py_strip :: "pystr \<Rightarrow> pystr" where
  "py_strip s = rev (dropWhile py_isspace (rev (dropWhile py_isspace s)))"

definition is_digit :: "nat \<Rightarrow> bool" where
  "is_digit c \<longleftrightarrow> 48 \<le> c \<and> c \<le> 57"

fun int_literal :: "pystr \<Rightarrow> bool" where
  "int_literal [] = False"
| "int_literal [c] = is_digit c"
| "int_literal (c # d # cs) =
     (is_digit c \<and> (if d = 95 then int_literal cs else int_literal (d # cs)))"

definition digits_value :: "pystr \<Rightarrow> nat" where
  "digits_value s = foldl (\<lambda>a c. 10 * a + (c - 48)) 0 (filter (\<lambda>c. c \<noteq> 95) s)"

definition py_int :: "pystr \<Rightarrow> int option" where
  "py_int s =
     (case py_strip s of
        [] \<Rightarrow> None
      | c # cs \<Rightarrow>
          if c = 45 then (if int_literal cs then Some (- int (digits_value cs)) else None)
          else if c = 43 then (if int_literal cs then Some (int (digits_value cs)) else None)
          else if int_literal (c # cs) then Some (int (digits_value (c # cs))) else None)"


section \<open>Sessions\<close>

text \<open>
  The dataclass \<open>RoomSession\<close>. Its annotations are \<open>int\<close>, \<open>str\<close> and \<open>bool\<close>, but the
  constructor stores whatever value a keyword carries, and the keywords come from JSON.
\<close>

record RoomSession =
  user_id :: pyval
  room_number :: pyval
  description :: pyval
  buggy_snippet :: pyval
  correct_snippet :: pyval
  attempts :: pyval
  is_complete :: pyval

definition field_names :: "pystr list" where
  "field_names = map str [''user_id'', ''room_number'', ''description'', ''buggy_snippet'',
                          ''correct_snippet'', ''attempts'', ''is_complete'']"

definition kwarg :: "(pystr \<times> pyval) list \<Rightarrow> string \<Rightarrow> pyval \<Rightarrow> pyval" where
  "kwarg kw name dflt = (case map_of kw (str name) of Some v \<Rightarrow> v | None \<Rightarrow> dflt)"

text \<open>
  \<open>RoomSession(**kw)\<close>: a keyword that is no field is a \<open>TypeError\<close>, so is a missing
  \<open>user_id\<close> (the only field without a default).
\<close>

definition RoomSession_init :: "(pystr \<times> pyval) list \<Rightarrow> exn + RoomSession" where
  "RoomSession_init kw =
     (if list_ex (\<lambda>k. k \<notin> set field_names) (map fst kw) then Inl TypeError
      else case map_of kw (str ''user_id'') of
             None \<Rightarrow> Inl TypeError
           | Some uid \<Rightarrow>
               Inr \<lparr>user_id = uid,
                    room_number = kwarg kw ''room_number'' (PInt 1),
                    description = kwarg kw ''description'' (PStr []),
                    buggy_snippet = kwarg kw ''buggy_snippet'' (PStr []),
                    correct_snippet = kwarg kw ''correct_snippet'' (PStr []),
                    attempts = kwarg kw ''attempts'' (PInt 0),
                    is_complete = kwarg kw ''is_complete'' (PBool False)\<rparr>)"

text \<open>\<open>dataclasses.asdict(session)\<close>\<close>

definition asdict :: "RoomSession \<Rightarrow> (pystr \<times> pyval) list" where
  "asdict s =
     [(str ''user_id'', user_id s),
      (str ''room_number'', room_number s),
      (str ''description'', description s),
      (str ''buggy_snippet'', buggy_snippet s),
      (str ''correct_snippet'', correct_snippet s),
      (str ''attempts'', attempts s),
      (str ''is_complete'', is_complete s)]"


section \<open>The session file\<close>

text \<open>
  The document \<open>json.dump\<close> writes for the in-memory mapping: integer keys become their
  decimal strings, every session becomes the dictionary of its fields. A dictionary is an
  association list in insertion order; \<open>d[k] = v\<close> is \<open>AList.update\<close>, \<open>d.pop(k, None)\<close> is
  \<open>AList.delete\<close>, \<open>d.get(k)\<close> is \<open>map_of\<close>.
\<close>

definition sessions_to_save :: "(int \<times> RoomSession) list \<Rightarrow> pyval" where
  "sessions_to_save m = PDict (map (\<lambda>(uid, session). (py_str_int uid, PDict (asdict session))) m)"

text \<open>
  What the file \<open>user_sessions.json\<close> can be when it is read: absent, present at the
  existence test but gone at \<open>open\<close>, not valid UTF-8, not valid JSON, or a JSON document
  (given by the value \<open>json.load\<close> returns for it). A file that cannot be opened for another
  reason is not modelled.
\<close>

datatype file_state = NoFile | FileVanishes | BadUtf8 | NotJson | JsonDoc pyval

text \<open>
  The loop of \<open>load_sessions_from_file\<close>. In \<open>user_sessions[int(uid)] = RoomSession(**data)\<close>
  Python evaluates the right-hand side first.
\<close>

fun load_items :: "(pystr \<times> pyval) list \<Rightarrow> (int \<times> RoomSession) list
                     \<Rightarrow> exn option \<times> (int \<times> RoomSession) list" where
  "load_items [] m = (None, m)"
| "load_items ((uid, session_data) # rest) m =
     (case session_data of
        PDict kw \<Rightarrow>
          (case RoomSession_init kw of
             Inl e \<Rightarrow> (Some e, m)
           | Inr session \<Rightarrow>
               (case py_int uid of
                  None \<Rightarrow> (Some ValueError, m)
                | Some k \<Rightarrow> load_items rest (AList.update k session m)))
      | _ \<Rightarrow> (Some TypeError, m))"


section \<open>Program state, environment and effects\<close>

datatype prompt =
    FirstRoomPrompt
  | NextRoomPrompt pyval
  | HintPrompt pyval pyval

datatype reply =
    BusyNotice
  | ReturnedNotice
  | RoomMessage pyval pyval pyval
  | GateLocked
  | HintMessage pyval
  | HintUnavailable
  | Victory
  | RoomComplete nat pyval
  | CastleCollapsed
  | Incorrect
  | GhostsOnlyInside
  | LeftCastle
  | OutsideCastle
  | ProgressReport pyval pyval
  | EchoLost
  | Welcome
  | GodModeAnswer pyval
  | GodModeOutside

datatype tg_call = ReplyText reply | SendChatAction

datatype log_entry =
    SessionsSaved
  | SaveFailed
  | SessionsLoaded nat
  | LoadFailed
  | CleanedUp int
  | InvalidRoom pyval

datatype event =
    Telegram tg_call
  | GroqRequest prompt
  | LogInfo log_entry
  | LogError log_entry

text \<open>
  The globals \<open>user_sessions\<close> and \<open>user_processing_status\<close>, the session file, and the
  trace of everything the program has sent, requested and logged.
\<close>

record state =
  user_sessions :: "(int \<times> RoomSession) list"
  user_processing_status :: "int \<Rightarrow> bool option"
  session_file :: file_state
  trace :: "event list"

text \<open>
  What the outside world does during one handler: the value \<open>call_groq_api\<close> returns
  (\<open>PNone\<close> for every failure, which that function catches), which Bot API calls succeed,
  whether writing the session file fails (and what it leaves behind), and the index
  \<open>random.choice\<close> picks.
\<close>

record env =
  groq_reply :: pyval
  telegram_ok :: "tg_call \<Rightarrow> bool"
  disk_fault :: "file_state option"
  random_choice :: nat

text \<open>A statement runs on the state and ends normally or with an exception.\<close>

type_synonym cmd = "state \<Rightarrow> exn option \<times> state"

definition and_then :: "cmd \<Rightarrow> cmd \<Rightarrow> cmd" where
  "and_then c1 c2 st = (case c1 st of (None, st') \<Rightarrow> c2 st' | (Some e, st') \<Rightarrow> (Some e, st'))"

definition raise :: "exn \<Rightarrow> cmd" where
  "raise e st = (Some e, st)"

definition lift :: "(state \<Rightarrow> state) \<Rightarrow> cmd" where
  "lift f st = (None, f st)"

definition emit :: "event \<Rightarrow> state \<Rightarrow> state" where
  "emit ev st = st\<lparr>trace := trace st @ [ev]\<rparr>"

definition telegram :: "env \<Rightarrow> tg_call \<Rightarrow> cmd" where
  "telegram w c st = (if telegram_ok w c then (None, emit (Telegram c) st) else (Some TelegramError, st))"

definition call_groq_api :: "prompt \<Rightarrow> cmd" where
  "call_groq_api p = lift (emit (GroqRequest p))"

text \<open>Assignment to a field of the session object that the dictionary holds for \<open>uid\<close>.\<close>

definition mutate :: "int \<Rightarrow> (RoomSession \<Rightarrow> RoomSession) \<Rightarrow> state \<Rightarrow> state" where
  "mutate uid f st =
     st\<lparr>user_sessions := map (\<lambda>(k, s). if k = uid then (k, f s) else (k, s)) (user_sessions st)\<rparr>"


section \<open>Persistence\<close>

definition save_sessions_to_file :: "env \<Rightarrow> state \<Rightarrow> state" where
  "save_sessions_to_file w st =
     (case disk_fault w of
        None \<Rightarrow> emit (LogInfo SessionsSaved)
                 (st\<lparr>session_file := JsonDoc (sessions_to_save (user_sessions st))\<rparr>)
      | Some damaged \<Rightarrow> emit (LogError SaveFailed) (st\<lparr>session_file := damaged\<rparr>))"

definition load_sessions_from_file :: cmd where
  "load_sessions_from_file st =
     (case session_file st of
        NoFile \<Rightarrow> (None, st)
      | FileVanishes \<Rightarrow> (None, emit (LogError LoadFailed) (st\<lparr>user_sessions := []\<rparr>))
      | BadUtf8 \<Rightarrow> (Some UnicodeDecodeError, st)
      | NotJson \<Rightarrow> (None, emit (LogError LoadFailed) (st\<lparr>user_sessions := []\<rparr>))
      | JsonDoc doc \<Rightarrow>
          (case doc of
             PDict items \<Rightarrow>
               (case load_items items (user_sessions st) of
                  (None, m) \<Rightarrow>
                    (None, emit (LogInfo (SessionsLoaded (length m))) (st\<lparr>user_sessions := m\<rparr>))
                | (Some e, m) \<Rightarrow> (Some e, st\<lparr>user_sessions := m\<rparr>))
           | _ \<Rightarrow> (Some AttributeErrorNoMethod, st)))"

text \<open>The state of a process that has just started, before \<open>main\<close> loads the file.\<close>

definition startup :: "file_state \<Rightarrow> state" where
  "startup f = \<lparr>user_sessions = [], user_processing_status = (\<lambda>_. None),
                session_file = f, trace = []\<rparr>"

definition cleanup_session :: "env \<Rightarrow> int \<Rightarrow> cmd" where
  "cleanup_session w uid =
     lift (\<lambda>st. emit (LogInfo (CleanedUp uid))
                  (save_sessions_to_file w
                     (st\<lparr>user_sessions := AList.delete uid (user_sessions st)\<rparr>)))"


section \<open>Helpers of the handlers\<close>

text \<open>
  \<open>isinstance(response, dict) and all(k in response for k in ("description",
  "buggy_snippet", "correct_snippet"))\<close>
\<close>

definition valid_room :: "pyval \<Rightarrow> bool" where
  "valid_room response =
     (case response of
        PDict d \<Rightarrow> list_all (\<lambda>k. k \<in> set (map fst d))
                     (map str [''description'', ''buggy_snippet'', ''correct_snippet''])
      | _ \<Rightarrow> False)"

text \<open>
  \<open>RoomSession(user_id=user_id, **response)\<close>: a \<open>user_id\<close> among the keys of the response
  is a second value for the same keyword, a \<open>TypeError\<close>.
\<close>

definition new_session :: "int \<Rightarrow> (pystr \<times> pyval) list \<Rightarrow> exn + RoomSession" where
  "new_session uid response =
     (if str ''user_id'' \<in> set (map fst response) then Inl TypeError
      else RoomSession_init ((str ''user_id'', PInt uid) # response))"

text \<open>
  \<open>format_room_message\<close> passes the description to \<open>escape_markdown\<close>, a regular-expression
  substitution that raises \<open>TypeError\<close> on anything but a string; snippet and room number
  are interpolated as they are.
\<close>

definition format_room_message :: "pyval \<Rightarrow> pyval \<Rightarrow> pyval \<Rightarrow> exn + reply" where
  "format_room_message descr snippet number =
     (case descr of PStr _ \<Rightarrow> Inr (RoomMessage descr snippet number) | _ \<Rightarrow> Inl TypeError)"

text \<open>\<open>msg = format_room_message(...)\<close> followed by \<open>reply_text(msg, ...)\<close>\<close>

definition send_room_message :: "env \<Rightarrow> pyval \<Rightarrow> pyval \<Rightarrow> pyval \<Rightarrow> cmd" where
  "send_room_message w descr snippet number =
     (case format_room_message descr snippet number of
        Inl e \<Rightarrow> raise e
      | Inr msg \<Rightarrow> telegram w (ReplyText msg))"

text \<open>\<open>session and not session.is_complete\<close>, for the result of \<open>user_sessions.get\<close>.\<close>

definition active :: "RoomSession option \<Rightarrow> bool" where
  "active session = (case session of None \<Rightarrow> False | Some s \<Rightarrow> \<not> py_truthy (is_complete s))"


section \<open>Command handlers\<close>

definition start_command :: "env \<Rightarrow> cmd" where
  "start_command w = telegram w (ReplyText Welcome)"

definition god_mode_command :: "env \<Rightarrow> int \<Rightarrow> cmd" where
  "god_mode_command w uid st =
     (case map_of (user_sessions st) uid of
        Some session \<Rightarrow>
          if \<not> py_truthy (is_complete session)
          then telegram w (ReplyText (GodModeAnswer (correct_snippet session))) st
          else telegram w (ReplyText GodModeOutside) st
      | None \<Rightarrow> telegram w (ReplyText GodModeOutside) st)"


section \<open>The three tasks\<close>

definition enter_castle_task :: "env \<Rightarrow> int \<Rightarrow> cmd" where
  "enter_castle_task w uid =
     and_then (telegram w SendChatAction)
    (and_then (call_groq_api FirstRoomPrompt)
       (if valid_room (groq_reply w) then
          (case groq_reply w of
             PDict response \<Rightarrow>
               (case new_session uid response of
                  Inl e \<Rightarrow> raise e
                | Inr session \<Rightarrow>
                    and_then (lift (\<lambda>st. st\<lparr>user_sessions :=
                                               AList.update uid session (user_sessions st)\<rparr>))
                   (and_then (lift (save_sessions_to_file w))
                             (send_room_message w (description session) (buggy_snippet session)
                                (room_number session))))
           | _ \<Rightarrow> raise TypeError)
        else and_then (lift (emit (LogError (InvalidRoom (groq_reply w)))))
                      (telegram w (ReplyText GateLocked))))"

definition hint_task :: "env \<Rightarrow> int \<Rightarrow> cmd" where
  "hint_task w uid st =
     (let session = map_of (user_sessions st) uid in
      and_then (telegram w SendChatAction)
        (case session of
           None \<Rightarrow> raise AttributeErrorNoSession
         | Some s \<Rightarrow>
             and_then (call_groq_api (HintPrompt (buggy_snippet s) (correct_snippet s)))
               (let hint_text = groq_reply w in
                if py_truthy hint_text then
                  (case hint_text of
                     PStr _ \<Rightarrow> telegram w (ReplyText (HintMessage hint_text))
                   | _ \<Rightarrow> raise TypeError)
                else telegram w (ReplyText HintUnavailable))) st)"

text \<open>
  The part of \<open>code_submission_task\<close> after a correct answer below the last room: announce
  the next room, ask for its content, install it or give the session up.
\<close>

definition next_room :: "env \<Rightarrow> int \<Rightarrow> pyval \<Rightarrow> cmd" where
  "next_room w uid number =
     and_then (telegram w SendChatAction)
    (and_then (telegram w (ReplyText (RoomComplete (random_choice w mod 10) number)))
    (and_then (call_groq_api (NextRoomPrompt number))
       (if valid_room (groq_reply w) then
          (case groq_reply w of
             PDict response \<Rightarrow>
               (case (map_of response (str ''description''), map_of response (str ''buggy_snippet''),
                      map_of response (str ''correct_snippet'')) of
                  (Some d, Some b, Some c) \<Rightarrow>
                    and_then (lift (mutate uid (\<lambda>s. s\<lparr>description := d, buggy_snippet := b,
                                                      correct_snippet := c\<rparr>)))
                   (and_then (lift (save_sessions_to_file w))
                             (send_room_message w d b number))
                | _ \<Rightarrow> raise KeyError)
           | _ \<Rightarrow> raise TypeError)
        else and_then (lift (emit (LogError (InvalidRoom (groq_reply w)))))
            (and_then (telegram w (ReplyText CastleCollapsed))
                      (cleanup_session w uid)))))"

text \<open>The branch of \<open>code_submission_task\<close> taken when \<open>user_code == correct_code\<close>.\<close>

definition correct_answer :: "env \<Rightarrow> int \<Rightarrow> RoomSession \<Rightarrow> cmd" where
  "correct_answer w uid session =
     (case py_add1 (room_number session) of
        Inl e \<Rightarrow> raise e
      | Inr number \<Rightarrow>
          and_then (lift (mutate uid (\<lambda>s. s\<lparr>room_number := number\<rparr>)))
         (and_then (lift (mutate uid (\<lambda>s. s\<lparr>attempts := PInt 0\<rparr>)))
            (case py_gt number 5 of
               Inl e \<Rightarrow> raise e
             | Inr True \<Rightarrow> and_then (telegram w (ReplyText Victory)) (cleanup_session w uid)
             | Inr False \<Rightarrow> next_room w uid number)))"

text \<open>The \<open>else\<close> branch.\<close>

definition wrong_answer :: "env \<Rightarrow> int \<Rightarrow> RoomSession \<Rightarrow> cmd" where
  "wrong_answer w uid session =
     (case py_add1 (attempts session) of
        Inl e \<Rightarrow> raise e
      | Inr n \<Rightarrow>
          and_then (lift (mutate uid (\<lambda>s. s\<lparr>attempts := n\<rparr>)))
         (and_then (lift (save_sessions_to_file w))
                   (telegram w (ReplyText Incorrect))))"

definition code_submission_task :: "env \<Rightarrow> int \<Rightarrow> pystr \<Rightarrow> cmd" where
  "code_submission_task w uid text st =
     (case map_of (user_sessions st) uid of
        None \<Rightarrow> (Some AttributeErrorNoSession, st)
      | Some session \<Rightarrow>
          (case correct_snippet session of
             PStr solution \<Rightarrow>
               if normalize_code text = normalize_code solution
               then correct_answer w uid session st
               else wrong_answer w uid session st
           | _ \<Rightarrow> (Some AttributeErrorNoMethod, st)))"


section \<open>The router\<close>

definition enter_button :: pystr where
  "enter_button = [127918, 32, 1608, 1585, 1608, 1583, 32, 1576, 1607, 32, 1602, 1604, 1593, 1607]"

definition hint_button :: pystr where
  "hint_button = [128161, 32, 1583, 1585, 1740, 1575, 1601, 1578, 32, 1585, 1575, 1607, 1606,
                  1605, 1575, 1740, 1740]"

definition leave_button :: pystr where
  "leave_button = [128682, 32, 1578, 1585, 1705, 32, 1576, 1575, 1586, 1740]"

definition progress_button :: pystr where
  "progress_button = [128202, 32, 1662, 1740, 1588, 1585, 1601, 1578, 32, 1605, 1606]"

text \<open>
  The \<open>try\<close> / \<open>finally\<close> around the awaited task: the flag is set, the task runs, the flag
  is cleared, and an exception of the task goes on to the caller.
\<close>

definition run_task :: "int \<Rightarrow> cmd \<Rightarrow> cmd" where
  "run_task uid task st =
     (case task (st\<lparr>user_processing_status := (user_processing_status st)(uid \<mapsto> True)\<rparr>) of
        (result, st') \<Rightarrow>
          (result, st'\<lparr>user_processing_status := (user_processing_status st')(uid \<mapsto> False)\<rparr>))"

definition message_router :: "env \<Rightarrow> int \<Rightarrow> pystr \<Rightarrow> cmd" where
  "message_router w uid text st =
     (if user_processing_status st uid = Some True then telegram w (ReplyText BusyNotice) st
      else
        let session = map_of (user_sessions st) uid in
        if text = enter_button then
          (case session of
             Some s \<Rightarrow>
               if \<not> py_truthy (is_complete s) then
                 and_then (telegram w (ReplyText ReturnedNotice))
                          (send_room_message w (description s) (buggy_snippet s) (room_number s)) st
               else run_task uid (enter_castle_task w uid) st
           | None \<Rightarrow> run_task uid (enter_castle_task w uid) st)
        else if text = hint_button then
          (if \<not> active session then telegram w (ReplyText GhostsOnlyInside) st
           else run_task uid (hint_task w uid) st)
        else if text = leave_button then
          (if session \<noteq> None then
             and_then (cleanup_session w uid) (telegram w (ReplyText LeftCastle)) st
           else telegram w (ReplyText OutsideCastle) st)
        else if text = progress_button then
          (case session of
             None \<Rightarrow> telegram w (ReplyText OutsideCastle) st
           | Some s \<Rightarrow>
               if py_truthy (is_complete s) then telegram w (ReplyText OutsideCastle) st
               else telegram w (ReplyText (ProgressReport (room_number s) (attempts s))) st)
        else
          (if active session then run_task uid (code_submission_task w uid text) st
           else telegram w (ReplyText EchoLost) st))"

text \<open>
  The value of the variable \<open>task_to_run\<close> when the router reaches \<open>if task_to_run:\<close>,
  and the coroutine it stands for.
\<close>

datatype task = EnterCastle | Hint | CodeSubmission

definition task_to_run :: "state \<Rightarrow> int \<Rightarrow> pystr \<Rightarrow> task option" where
  "task_to_run st uid text =
     (let session = map_of (user_sessions st) uid in
      if text = enter_button then (if active session then None else Some EnterCastle)
      else if text = hint_button then (if \<not> active session then None else Some Hint)
      else if text = leave_button then None
      else if text = progress_button then None
      else if active session then Some CodeSubmission else None)"

fun coroutine :: "env \<Rightarrow> int \<Rightarrow> pystr \<Rightarrow> task \<Rightarrow> cmd" where
  "coroutine w uid text EnterCastle = enter_castle_task w uid"
| "coroutine w uid text Hint = hint_task w uid"
| "coroutine w uid text CodeSubmission = code_submission_task w uid text"

text \<open>
  The handlers registered in \<open>main\<close>: the two commands, and the router for every text
  message that is not a command.
\<close>

datatype tg_update = StartCommand int | GodmodeCommand int | TextMessage int pystr

fun handle_update :: "env \<Rightarrow> tg_update \<Rightarrow> cmd" where
  "handle_update w (StartCommand uid) = start_command w"
| "handle_update w (GodmodeCommand uid) = god_mode_command w uid"
| "handle_update w (TextMessage uid text) = message_router w uid text"


text \<open>
  A run of the program: updates handled one after the other, each in its environment. The
  session that a user has at the start lives through the run when the user has a session
  after every update and none of the updates starts a new game in its place (the router
  does that on the enter button when the user is not busy and the session present is flagged
  complete).
\<close>

fun handle_updates :: "(env \<times> tg_update) list \<Rightarrow> state \<Rightarrow> state" where
  "handle_updates [] st = st"
| "handle_updates ((w, upd) # rest) st = handle_updates rest (snd (handle_update w upd st))"

fun lives_through :: "int \<Rightarrow> (env \<times> tg_update) list \<Rightarrow> state \<Rightarrow> bool" where
  "lives_through uid [] st = (map_of (user_sessions st) uid \<noteq> None)"
| "lives_through uid ((w, upd) # rest) st =
     (case map_of (user_sessions st) uid of
        None \<Rightarrow> False
      | Some s \<Rightarrow>
          (if upd = TextMessage uid enter_button \<and> py_truthy (is_complete s) \<and>
              user_processing_status st uid \<noteq> Some True then False
           else lives_through uid rest (snd (handle_update w upd st))))"

section \<open>Handlers in flight\<close>


section \<open>Notions used in the proofs\<close>

text \<open>A statement keeps a property of the state, whether it ends normally or not.\<close>

definition stable :: "(state \<Rightarrow> bool) \<Rightarrow> cmd \<Rightarrow> bool" where
  "stable P c \<longleftrightarrow> (\<forall>st. P st \<longrightarrow> P (snd (c st)))"

text \<open>A statement never ends with the given exception.\<close>

definition never_raises :: "exn \<Rightarrow> cmd \<Rightarrow> bool" where
  "never_raises e c \<longleftrightarrow> (\<forall>st. fst (c st) \<noteq> Some e)"

text \<open>The session of a user, if there is one, has a property.\<close>

definition gone_or :: "int \<Rightarrow> (RoomSession \<Rightarrow> bool) \<Rightarrow> state \<Rightarrow> bool" where
  "gone_or uid R st = (case map_of (user_sessions st) uid of None \<Rightarrow> True | Some s \<Rightarrow> R s)"

section \<open>Concrete inputs\<close>

text \<open>
  An environment in which every call of the Bot API and every write of the file succeed and
  the generator fails; a session of user 42 in a given room whose solution is \<open>x=1\<close>; the
  state of a process that holds just that session.
\<close>

definition reliable :: env where
  "reliable = \<lparr>groq_reply = PNone, telegram_ok = (\<lambda>_. True), disk_fault = None, random_choice = 0\<rparr>"

definition in_room :: "int \<Rightarrow> RoomSession" where
  "in_room n = \<lparr>user_id = PInt 42, room_number = PInt n, description = PStr (str ''dark hall''),
                buggy_snippet = PStr (str ''x=='' ), correct_snippet = PStr (str ''x=1''),
                attempts = PInt 0, is_complete = PBool False\<rparr>"

definition playing :: "int \<Rightarrow> state" where
  "playing n = (startup NoFile)\<lparr>user_sessions := [(42, in_room n)]\<rparr>"

text \<open>
  Replies of the generator: a well-formed room; a room with a key more than the three asked
  for; a room that also carries the key \<open>is_complete\<close>.
\<close>

definition room_reply :: "(pystr \<times> pyval) list" where
  "room_reply = [(str ''description'', PStr (str ''a cold cellar'')),
                 (str ''buggy_snippet'', PStr (str ''y=='')),
                 (str ''correct_snippet'', PStr (str ''y=2''))]"

definition generous :: env where
  "generous = reliable\<lparr>groq_reply := PDict room_reply\<rparr>"

definition talkative :: env where
  "talkative = reliable\<lparr>groq_reply := PDict (room_reply @ [(str ''hint'', PStr (str ''look''))])\<rparr>"

definition flagging :: env where
  "flagging = reliable\<lparr>groq_reply := PDict (room_reply @ [(str ''is_complete'', PBool True)])\<rparr>"

section \<open>Facts about the string functions\<close>

lemma concat_split_from: "concat (split_from w s) = w @ filter (\<lambda>c. \<not> py_isspace c) s"
  by (induction s arbitrary: w) auto

lemma normalize_code_eq: "normalize_code s = remove_all_whitespace s"
  by (simp add: normalize_code_def py_split_def remove_all_whitespace_def concat_split_from)













section \<open>What the statements change\<close>

lemma emit_fields [simp]:
  "user_sessions (emit ev st) = user_sessions st"
  "user_processing_status (emit ev st) = user_processing_status st"
  "session_file (emit ev st) = session_file st"
  "trace (emit ev st) = trace st @ [ev]"
  by (simp_all add: emit_def)

lemma save_fields [simp]:
  "user_sessions (save_sessions_to_file w st) = user_sessions st"
  "user_processing_status (save_sessions_to_file w st) = user_processing_status st"
  by (simp_all add: save_sessions_to_file_def split: option.splits)

lemma mutate_fields [simp]:
  "user_processing_status (mutate uid f st) = user_processing_status st"
  "session_file (mutate uid f st) = session_file st"
  "trace (mutate uid f st) = trace st"
  by (simp_all add: mutate_def)

lemma map_of_mutate_list:
  "map_of (map (\<lambda>(k, s). if k = uid then (k, f s) else (k, s)) m) u =
     (if u = uid then map_option f (map_of m u) else map_of m u)"
  by (induction m) auto

lemma map_of_mutate [simp]:
  "map_of (user_sessions (mutate uid f st)) u =
     (if u = uid then map_option f (map_of (user_sessions st) u) else map_of (user_sessions st) u)"
  by (simp add: mutate_def map_of_mutate_list)

lemma stableI: "(\<And>st. P st \<Longrightarrow> P (snd (c st))) \<Longrightarrow> stable P c"
  by (simp add: stable_def)

lemma stableD: "stable P c \<Longrightarrow> P st \<Longrightarrow> P (snd (c st))"
  by (simp add: stable_def)

lemma stable_and_then: "stable P c1 \<Longrightarrow> stable P c2 \<Longrightarrow> stable P (and_then c1 c2)"
  unfolding stable_def and_then_def
  by (auto split: prod.splits option.splits)

lemma stable_raise: "stable P (raise e)"
  by (simp add: stable_def raise_def)

lemma stable_lift: "(\<And>st. P st \<Longrightarrow> P (f st)) \<Longrightarrow> stable P (lift f)"
  by (simp add: stable_def lift_def)

lemma stable_telegram: "(\<And>st. P st \<Longrightarrow> P (emit (Telegram c) st)) \<Longrightarrow> stable P (telegram w c)"
  by (simp add: stable_def telegram_def)

section \<open>The busy flag\<close>

lemmas cmd_defs = and_then_def telegram_def lift_def raise_def call_groq_api_def
  cleanup_session_def send_room_message_def format_room_message_def





lemma router_busy:
  "user_processing_status st uid = Some True
     \<Longrightarrow> message_router w uid text st = telegram w (ReplyText BusyNotice) st"
  by (simp add: message_router_def)

lemma router_dispatch:
  "user_processing_status st uid \<noteq> Some True \<Longrightarrow> task_to_run st uid text = Some t
     \<Longrightarrow> message_router w uid text st = run_task uid (coroutine w uid text t) st"
  by (auto simp: message_router_def task_to_run_def active_def Let_def
      split: if_splits option.splits)


lemma run_task_result:
  "run_task uid task st = (r, st') \<Longrightarrow>
     \<exists>st1. task (st\<lparr>user_processing_status := (user_processing_status st)(uid \<mapsto> True)\<rparr>) = (r, st1)
         \<and> st' = st1\<lparr>user_processing_status := (user_processing_status st1)(uid \<mapsto> False)\<rparr>"
  by (auto simp: run_task_def split: prod.splits)






section \<open>The session looked up by a task\<close>

lemma py_add1_error: "py_add1 v = Inl e \<Longrightarrow> e = TypeError"
  by (cases v) auto

lemma py_gt_error: "py_gt v k = Inl e \<Longrightarrow> e = TypeError"
  by (cases v) auto

lemma RoomSession_init_error: "RoomSession_init kw = Inl e \<Longrightarrow> e = TypeError"
  by (auto simp: RoomSession_init_def split: if_splits option.splits)

lemma new_session_error: "new_session uid r = Inl e \<Longrightarrow> e = TypeError"
  by (auto simp: new_session_def split: if_splits dest: RoomSession_init_error)

lemma enter_finds_session:
  "fst (enter_castle_task w uid st) \<noteq> Some AttributeErrorNoSession"
  by (auto simp: enter_castle_task_def cmd_defs
      split: option.splits pyval.splits sum.splits bool.splits prod.splits if_splits
      dest: new_session_error)

lemma hint_finds_session:
  "map_of (user_sessions st) uid \<noteq> None
     \<Longrightarrow> fst (hint_task w uid st) \<noteq> Some AttributeErrorNoSession"
  by (auto simp: hint_task_def cmd_defs Let_def
      split: option.splits pyval.splits sum.splits bool.splits prod.splits if_splits)

lemma next_room_finds_session:
  "fst (next_room w uid n st) \<noteq> Some AttributeErrorNoSession"
  by (auto simp: next_room_def cmd_defs
      split: option.splits pyval.splits sum.splits bool.splits prod.splits if_splits)

lemma submission_finds_session:
  "map_of (user_sessions st) uid \<noteq> None
     \<Longrightarrow> fst (code_submission_task w uid text st) \<noteq> Some AttributeErrorNoSession"
  by (auto simp: code_submission_task_def correct_answer_def wrong_answer_def cmd_defs
      next_room_finds_session
      split: option.splits pyval.splits sum.splits bool.splits prod.splits if_splits
      dest: py_add1_error py_gt_error)

lemma run_task_fst: "fst (run_task uid task st)
   = fst (task (st\<lparr>user_processing_status := (user_processing_status st)(uid \<mapsto> True)\<rparr>))"
  by (simp add: run_task_def split: prod.splits)

lemma router_finds_session:
  "fst (message_router w uid text st) \<noteq> Some AttributeErrorNoSession"
proof (cases "user_processing_status st uid = Some True")
  case True
  then show ?thesis by (simp add: router_busy telegram_def)
next
  case False
  show ?thesis
  proof (cases "task_to_run st uid text")
    case None
    with False show ?thesis
      by (auto simp: message_router_def task_to_run_def active_def Let_def cmd_defs
          split: if_splits option.splits pyval.splits sum.splits prod.splits)
  next
    case (Some t)
    let ?st = "st\<lparr>user_processing_status := (user_processing_status st)(uid \<mapsto> True)\<rparr>"
    have found: "t \<noteq> EnterCastle \<Longrightarrow> map_of (user_sessions ?st) uid \<noteq> None"
      using Some by (auto simp: task_to_run_def active_def Let_def split: if_splits option.splits)
    have "fst (coroutine w uid text t ?st) \<noteq> Some AttributeErrorNoSession"
      using found by (cases t) (simp_all add: enter_finds_session hint_finds_session submission_finds_session)
    with False Some show ?thesis by (simp add: router_dispatch run_task_fst)
  qed
qed

lemma submission_without_session:
  "map_of (user_sessions st) uid = None
     \<Longrightarrow> code_submission_task w uid text st = (Some AttributeErrorNoSession, st)"
  by (simp add: code_submission_task_def)

lemma hint_without_session:
  "map_of (user_sessions st) uid = None \<Longrightarrow> telegram_ok w SendChatAction
     \<Longrightarrow> fst (hint_task w uid st) = Some AttributeErrorNoSession"
  by (simp add: hint_task_def cmd_defs)

section \<open>The paths of a submission\<close>

lemma run_task_eq:
  "task (st\<lparr>user_processing_status := (user_processing_status st)(uid \<mapsto> True)\<rparr>) = (r, st2)
     \<Longrightarrow> run_task uid task st
          = (r, st2\<lparr>user_processing_status := (user_processing_status st2)(uid \<mapsto> False)\<rparr>)"
  by (simp add: run_task_def)

lemma router_submission:
  assumes "user_processing_status st uid \<noteq> Some True"
    and "text \<noteq> enter_button" "text \<noteq> hint_button" "text \<noteq> leave_button" "text \<noteq> progress_button"
    and "map_of (user_sessions st) uid = Some s" "\<not> py_truthy (is_complete s)"
  shows "message_router w uid text st = run_task uid (code_submission_task w uid text) st"
  using assms by (simp add: message_router_def active_def)



lemma fatal_task:
  assumes "map_of (user_sessions st) uid = Some s" "correct_snippet s = PStr sol"
    and "normalize_code text = normalize_code sol" "room_number s = PInt n" "n < 5"
    and "\<not> valid_room (groq_reply w)"
    and "telegram_ok w SendChatAction"
        "telegram_ok w (ReplyText (RoomComplete (random_choice w mod 10) (PInt (n + 1))))"
        "telegram_ok w (ReplyText CastleCollapsed)"
  shows "code_submission_task w uid text st =
           cleanup_session w uid
            (emit (Telegram (ReplyText CastleCollapsed))
            (emit (LogError (InvalidRoom (groq_reply w)))
            (emit (GroqRequest (NextRoomPrompt (PInt (n + 1))))
            (emit (Telegram (ReplyText (RoomComplete (random_choice w mod 10) (PInt (n + 1)))))
            (emit (Telegram SendChatAction)
              (mutate uid (\<lambda>s. s\<lparr>attempts := PInt 0\<rparr>)
                 (mutate uid (\<lambda>s. s\<lparr>room_number := PInt (n + 1)\<rparr>) st)))))))"
  using assms by (simp add: code_submission_task_def correct_answer_def next_room_def
      and_then_def lift_def telegram_def call_groq_api_def)

lemma cleanup_result:
  "cleanup_session w uid st =
     (None, emit (LogInfo (CleanedUp uid))
              (save_sessions_to_file w (st\<lparr>user_sessions := AList.delete uid (user_sessions st)\<rparr>)))"
  by (simp add: cleanup_session_def lift_def)

lemma save_file:
  "disk_fault w = None
     \<Longrightarrow> session_file (save_sessions_to_file w st) = JsonDoc (sessions_to_save (user_sessions st))"
  by (simp add: save_sessions_to_file_def emit_def)

lemma save_trace:
  "disk_fault w = None \<Longrightarrow> trace (save_sessions_to_file w st) = trace st @ [LogInfo SessionsSaved]"
  by (simp add: save_sessions_to_file_def)

lemma map_of_delete_same [simp]: "map_of (AList.delete k al) k = None"
  by (simp add: AList.delete_conv')

lemma delete_mutate_list:
  "AList.delete uid (map (\<lambda>(k, s). if k = uid then (k, f s) else (k, s)) m) = AList.delete uid m"
  by (induction m) (auto split: if_splits)

lemma delete_mutate [simp]:
  "AList.delete uid (user_sessions (mutate uid f st)) = AList.delete uid (user_sessions st)"
  by (simp add: mutate_def delete_mutate_list)



lemma run_submission:
  assumes "user_processing_status st uid \<noteq> Some True"
    and "text \<notin> {enter_button, hint_button, leave_button, progress_button}"
    and "map_of (user_sessions st) uid = Some s" and "\<not> py_truthy (is_complete s)"
    and "message_router w uid text st = (r, st')"
    and "code_submission_task w uid text
           (st\<lparr>user_processing_status := (user_processing_status st)(uid \<mapsto> True)\<rparr>) = (r2, st2)"
  shows "r = r2 \<and> st' = st2\<lparr>user_processing_status := (user_processing_status st2)(uid \<mapsto> False)\<rparr>"
proof -
  have "message_router w uid text st = run_task uid (code_submission_task w uid text) st"
    using assms(1-4) by (intro router_submission) auto
  then show ?thesis using assms(5,6) by (simp add: run_task_def)
qed


lemma victory_reply_rejected:
  assumes "map_of (user_sessions st) uid = Some s" "correct_snippet s = PStr sol"
    and "normalize_code text = normalize_code sol" "room_number s = PInt n" "5 \<le> n"
    and "\<not> telegram_ok w (ReplyText Victory)"
  shows "code_submission_task w uid text st =
           (Some TelegramError,
            mutate uid (\<lambda>s. s\<lparr>attempts := PInt 0\<rparr>)
              (mutate uid (\<lambda>s. s\<lparr>room_number := PInt (n + 1)\<rparr>) st))"
  using assms by (simp add: code_submission_task_def correct_answer_def and_then_def lift_def telegram_def)

section \<open>What a handler leaves alone\<close>

lemma map_of_update_other: "u \<noteq> k \<Longrightarrow> map_of (AList.update k v al) u = map_of al u"
  by (simp add: AList.update_conv')

lemma map_of_update_same: "map_of (AList.update k v al) k = Some v"
  by (simp add: AList.update_conv')

lemma stable_cleanup:
  assumes "\<And>st ev. P st \<Longrightarrow> P (emit ev st)"
    and "\<And>st. P st \<Longrightarrow> P (save_sessions_to_file w st)"
    and "\<And>st. P st \<Longrightarrow> P (st\<lparr>user_sessions := AList.delete uid (user_sessions st)\<rparr>)"
  shows "stable P (cleanup_session w uid)"
  unfolding cleanup_session_def by (intro stable_lift) (simp add: assms)

lemma stable_send_room_message:
  assumes "\<And>st ev. P st \<Longrightarrow> P (emit ev st)"
  shows "stable P (send_room_message w d b n)"
  unfolding send_room_message_def
  by (auto split: sum.splits intro!: stable_raise stable_telegram assms)

lemma stable_next_room:
  assumes emit: "\<And>st ev. P st \<Longrightarrow> P (emit ev st)"
    and save: "\<And>st. P st \<Longrightarrow> P (save_sessions_to_file w st)"
    and content: "\<And>st d b c. P st \<Longrightarrow>
        P (mutate uid (\<lambda>s. s\<lparr>description := d, buggy_snippet := b, correct_snippet := c\<rparr>) st)"
    and delete: "\<And>st. P st \<Longrightarrow> P (st\<lparr>user_sessions := AList.delete uid (user_sessions st)\<rparr>)"
  shows "stable P (next_room w uid n)"
  unfolding next_room_def call_groq_api_def
  by (auto split: pyval.splits option.splits
      intro!: stable_and_then stable_lift stable_telegram stable_raise stable_cleanup
        stable_send_room_message emit save content delete)

lemma stable_correct_answer:
  assumes emit: "\<And>st ev. P st \<Longrightarrow> P (emit ev st)"
    and save: "\<And>st. P st \<Longrightarrow> P (save_sessions_to_file w st)"
    and content: "\<And>st d b c. P st \<Longrightarrow>
        P (mutate uid (\<lambda>s. s\<lparr>description := d, buggy_snippet := b, correct_snippet := c\<rparr>) st)"
    and delete: "\<And>st. P st \<Longrightarrow> P (st\<lparr>user_sessions := AList.delete uid (user_sessions st)\<rparr>)"
    and stage: "\<And>st n. P st \<Longrightarrow> P (mutate uid (\<lambda>s. s\<lparr>room_number := n\<rparr>) st)"
    and reset: "\<And>st. P st \<Longrightarrow> P (mutate uid (\<lambda>s. s\<lparr>attempts := PInt 0\<rparr>) st)"
  shows "stable P (correct_answer w uid s)"
  unfolding correct_answer_def
  by (auto split: sum.splits bool.splits
      intro!: stable_and_then stable_lift stable_telegram stable_raise stable_cleanup
        stable_next_room emit save content delete stage reset)

lemma stable_wrong_answer:
  assumes emit: "\<And>st ev. P st \<Longrightarrow> P (emit ev st)"
    and save: "\<And>st. P st \<Longrightarrow> P (save_sessions_to_file w st)"
    and count: "\<And>st n. P st \<Longrightarrow> P (mutate uid (\<lambda>s. s\<lparr>attempts := n\<rparr>) st)"
  shows "stable P (wrong_answer w uid s)"
  unfolding wrong_answer_def
  by (auto split: sum.splits
      intro!: stable_and_then stable_lift stable_telegram stable_raise emit save count)

lemma stable_code_submission:
  assumes emit: "\<And>st ev. P st \<Longrightarrow> P (emit ev st)"
    and save: "\<And>st. P st \<Longrightarrow> P (save_sessions_to_file w st)"
    and mutate: "\<And>st f. P st \<Longrightarrow> P (mutate uid f st)"
    and delete: "\<And>st. P st \<Longrightarrow> P (st\<lparr>user_sessions := AList.delete uid (user_sessions st)\<rparr>)"
  shows "stable P (code_submission_task w uid text)"
proof (rule stableI)
  fix st assume P: "P st"
  have 1: "stable P (correct_answer w uid s)" for s
    by (intro stable_correct_answer emit save mutate delete)
  have 2: "stable P (wrong_answer w uid s)" for s
    by (intro stable_wrong_answer emit save mutate)
  show "P (snd (code_submission_task w uid text st))"
    using P stableD [OF 1 P] stableD [OF 2 P]
    by (auto simp: code_submission_task_def split: option.splits pyval.splits)
qed

lemma stable_enter_castle:
  assumes emit: "\<And>st ev. P st \<Longrightarrow> P (emit ev st)"
    and save: "\<And>st. P st \<Longrightarrow> P (save_sessions_to_file w st)"
    and update: "\<And>st s. P st \<Longrightarrow> P (st\<lparr>user_sessions := AList.update uid s (user_sessions st)\<rparr>)"
  shows "stable P (enter_castle_task w uid)"
  unfolding enter_castle_task_def call_groq_api_def
  by (auto split: pyval.splits sum.splits
      intro!: stable_and_then stable_lift stable_telegram stable_raise stable_send_room_message
        emit save update)

lemma submission_other:
  assumes "u \<noteq> uid"
  shows "map_of (user_sessions (snd (code_submission_task w u text st))) uid
           = map_of (user_sessions st) uid"
proof -
  let ?P = "\<lambda>st'. map_of (user_sessions st') uid = map_of (user_sessions st) uid"
  have "stable ?P (code_submission_task w u text)"
    using assms by (intro stable_code_submission) simp_all
  then show ?thesis by (rule stableD) simp
qed

lemma enter_other:
  assumes "u \<noteq> uid"
  shows "map_of (user_sessions (snd (enter_castle_task w u st))) uid = map_of (user_sessions st) uid"
proof -
  let ?P = "\<lambda>st'. map_of (user_sessions st') uid = map_of (user_sessions st) uid"
  have "stable ?P (enter_castle_task w u)"
    using assms by (intro stable_enter_castle) (simp_all add: map_of_update_other)
  then show ?thesis by (rule stableD) simp
qed

lemma hint_sessions: "user_sessions (snd (hint_task w u st)) = user_sessions st"
  by (auto simp: hint_task_def cmd_defs Let_def
      split: option.splits pyval.splits sum.splits bool.splits prod.splits if_splits)

section \<open>The stage of a session\<close>

lemma gone_or_emit: "gone_or uid R st \<Longrightarrow> gone_or uid R (emit ev st)"
  by (simp add: gone_or_def)

lemma gone_or_save: "gone_or uid R st \<Longrightarrow> gone_or uid R (save_sessions_to_file w st)"
  by (simp add: gone_or_def)

lemma gone_or_delete: "gone_or uid R (st\<lparr>user_sessions := AList.delete uid (user_sessions st)\<rparr>)"
  by (simp add: gone_or_def)

lemma gone_or_mutate:
  "(\<And>s. R s \<Longrightarrow> R (f s)) \<Longrightarrow> gone_or uid R st \<Longrightarrow> gone_or uid R (mutate uid f st)"
  by (auto simp: gone_or_def split: option.splits)

lemma gone_or_flags: "gone_or uid R (st\<lparr>user_processing_status := f\<rparr>) = gone_or uid R st"
  by (simp add: gone_or_def)

lemma gone_or_other:
  "u \<noteq> uid \<Longrightarrow> gone_or uid R (mutate u f st) = gone_or uid R st"
  by (simp add: gone_or_def)

lemma correct_answer_session:
  assumes "map_of (user_sessions st) uid = Some s" and "room_number s = PInt n"
  shows "gone_or uid (\<lambda>s'. room_number s' = PInt (n + 1) \<and> attempts s' = PInt 0 \<and>
                         is_complete s' = is_complete s)
           (snd (correct_answer w uid s st))"
proof -
  let ?R = "\<lambda>s'. room_number s' = PInt (n + 1) \<and> attempts s' = PInt 0 \<and> is_complete s' = is_complete s"
  let ?st2 = "mutate uid (\<lambda>s. s\<lparr>attempts := PInt 0\<rparr>)
                (mutate uid (\<lambda>s. s\<lparr>room_number := PInt (n + 1)\<rparr>) st)"
  let ?rest = "case py_gt (PInt (n + 1)) 5 of
               Inl e \<Rightarrow> raise e
             | Inr True \<Rightarrow> and_then (telegram w (ReplyText Victory)) (cleanup_session w uid)
             | Inr False \<Rightarrow> next_room w uid (PInt (n + 1))"
  have start: "gone_or uid ?R ?st2" using assms by (simp add: gone_or_def)
  have "stable (gone_or uid ?R) ?rest"
    by (auto split: bool.splits
        intro!: stable_and_then stable_telegram stable_cleanup stable_next_room
          gone_or_emit gone_or_save gone_or_delete gone_or_mutate)
  then have "gone_or uid ?R (snd (?rest ?st2))" using start by (rule stableD)
  moreover have "correct_answer w uid s st = ?rest ?st2"
    using assms by (simp add: correct_answer_def and_then_def lift_def)
  ultimately show ?thesis by simp
qed

lemma wrong_answer_session:
  assumes "map_of (user_sessions st) uid = Some s"
  shows "\<exists>s'. map_of (user_sessions (snd (wrong_answer w uid s st))) uid = Some s' \<and>
          room_number s' = room_number s \<and> is_complete s' = is_complete s"
  using assms
  by (auto simp: wrong_answer_def and_then_def lift_def raise_def telegram_def
      split: option.splits sum.splits if_splits)

lemma run_task_sessions:
  "user_sessions (snd (run_task u task st))
     = user_sessions (snd (task (st\<lparr>user_processing_status := (user_processing_status st)(u \<mapsto> True)\<rparr>)))"
  by (simp add: run_task_def split: prod.splits)

lemma coroutine_other:
  "u \<noteq> uid \<Longrightarrow> map_of (user_sessions (snd (coroutine w u text t st))) uid
                  = map_of (user_sessions st) uid"
  by (cases t) (simp_all add: enter_other hint_sessions submission_other)

lemma router_inline_sessions:
  assumes "task_to_run st u text = None"
  shows "user_sessions (snd (message_router w u text st)) = user_sessions st \<or>
         (text = leave_button \<and>
          user_sessions (snd (message_router w u text st)) = AList.delete u (user_sessions st))"
  using assms
  by (auto simp: message_router_def task_to_run_def active_def Let_def cmd_defs
      split: if_splits option.splits pyval.splits sum.splits prod.splits)

lemma map_of_delete_other: "u \<noteq> uid \<Longrightarrow> map_of (AList.delete u al) uid = map_of al uid"
  by (simp add: AList.delete_conv')

lemma router_other:
  assumes "u \<noteq> uid"
  shows "map_of (user_sessions (snd (message_router w u text st))) uid = map_of (user_sessions st) uid"
proof (cases "user_processing_status st u = Some True")
  case True
  then show ?thesis by (simp add: router_busy telegram_def)
next
  case False
  show ?thesis
  proof (cases "task_to_run st u text")
    case None
    from router_inline_sessions [OF None, of w] assms show ?thesis
      by (auto simp: map_of_delete_other)
  next
    case (Some t)
    with False assms show ?thesis
      by (simp add: router_dispatch run_task_sessions coroutine_other)
  qed
qed

lemma command_sessions:
  "user_sessions (snd (start_command w st)) = user_sessions st"
  "user_sessions (snd (god_mode_command w u st)) = user_sessions st"
  by (auto simp: start_command_def god_mode_command_def cmd_defs split: option.splits)

lemma submission_session:
  assumes "map_of (user_sessions st) uid = Some s" and "room_number s = PInt n"
  shows "(\<exists>s'. map_of (user_sessions (snd (code_submission_task w uid text st))) uid = Some s' \<and>
               room_number s' = PInt n \<and> is_complete s' = is_complete s) \<or>
         ((\<exists>sol. correct_snippet s = PStr sol \<and> normalize_code text = normalize_code sol) \<and>
          gone_or uid (\<lambda>s'. room_number s' = PInt (n + 1) \<and> attempts s' = PInt 0 \<and>
                            is_complete s' = is_complete s)
            (snd (code_submission_task w uid text st)))"
proof (cases "correct_snippet s")
  case (PStr sol)
  show ?thesis
  proof (cases "normalize_code text = normalize_code sol")
    case True
    then have "code_submission_task w uid text st = correct_answer w uid s st"
      using assms PStr by (simp add: code_submission_task_def)
    with correct_answer_session [OF assms, of w] True PStr show ?thesis by auto
  next
    case False
    then have "code_submission_task w uid text st = wrong_answer w uid s st"
      using assms PStr by (simp add: code_submission_task_def)
    with wrong_answer_session [OF assms(1), of w] assms(2) show ?thesis by auto
  qed
qed (use assms in \<open>simp_all add: code_submission_task_def\<close>)

lemma router_same_user:
  assumes s: "map_of (user_sessions st) uid = Some s" and n: "room_number s = PInt n"
  shows "map_of (user_sessions (snd (message_router w uid text st))) uid = None \<or>
     (\<exists>s'. map_of (user_sessions (snd (message_router w uid text st))) uid = Some s' \<and>
           room_number s' = PInt n \<and> is_complete s' = is_complete s) \<or>
     (\<exists>s' sol. map_of (user_sessions (snd (message_router w uid text st))) uid = Some s' \<and>
           room_number s' = PInt (n + 1) \<and> attempts s' = PInt 0 \<and> is_complete s' = is_complete s \<and>
           correct_snippet s = PStr sol \<and> normalize_code text = normalize_code sol) \<or>
     (text = enter_button \<and> py_truthy (is_complete s) \<and>
      user_processing_status st uid \<noteq> Some True)"
proof (cases "user_processing_status st uid = Some True")
  case True
  then show ?thesis using s n by (simp add: router_busy telegram_def)
next
  case False
  show ?thesis
  proof (cases "task_to_run st uid text")
    case None
    from router_inline_sessions [OF None, of w] s n show ?thesis
      by auto
  next
    case (Some t)
    let ?st1 = "st\<lparr>user_processing_status := (user_processing_status st)(uid \<mapsto> True)\<rparr>"
    have eq: "user_sessions (snd (message_router w uid text st))
                = user_sessions (snd (coroutine w uid text t ?st1))"
      using False Some by (simp add: router_dispatch run_task_sessions)
    show ?thesis
    proof (cases t)
      case EnterCastle
      then have "text = enter_button \<and> py_truthy (is_complete s)"
        using Some s by (auto simp: task_to_run_def active_def Let_def split: if_splits)
      with False show ?thesis by simp
    next
      case Hint
      then show ?thesis using eq s n by (simp add: hint_sessions)
    next
      case CodeSubmission
      have s1: "map_of (user_sessions ?st1) uid = Some s" using s by simp
      from submission_session [OF s1 n, of w "text"] CodeSubmission eq
      show ?thesis by (auto simp: gone_or_def split: option.splits)
    qed
  qed
qed

lemma step_same_or_next:
  assumes s: "map_of (user_sessions st) uid = Some s" and n: "room_number s = PInt n"
  shows "map_of (user_sessions (snd (handle_update w upd st))) uid = None \<or>
     (\<exists>s'. map_of (user_sessions (snd (handle_update w upd st))) uid = Some s' \<and>
           room_number s' = PInt n \<and> is_complete s' = is_complete s) \<or>
     (\<exists>s' text sol. map_of (user_sessions (snd (handle_update w upd st))) uid = Some s' \<and>
           room_number s' = PInt (n + 1) \<and> attempts s' = PInt 0 \<and> is_complete s' = is_complete s \<and>
           upd = TextMessage uid text \<and>
           correct_snippet s = PStr sol \<and> normalize_code text = normalize_code sol) \<or>
     (upd = TextMessage uid enter_button \<and> py_truthy (is_complete s) \<and>
      user_processing_status st uid \<noteq> Some True)"
proof (cases upd)
  case (StartCommand u)
  then show ?thesis using s n by (simp add: command_sessions)
next
  case (GodmodeCommand u)
  then show ?thesis using s n by (simp add: command_sessions)
next
  case (TextMessage u msg)
  show ?thesis
  proof (cases "u = uid")
    case True
    with TextMessage router_same_user [OF s n, of w msg] show ?thesis by auto
  next
    case False
    with TextMessage s n show ?thesis by (simp add: router_other)
  qed
qed

lemma successful_submission_advances:
  assumes "map_of (user_sessions st) uid = Some s" and "room_number s = PInt n"
    and "user_processing_status st uid \<noteq> Some True"
    and "text \<notin> {enter_button, hint_button, leave_button, progress_button}"
    and "\<not> py_truthy (is_complete s)"
    and "correct_snippet s = PStr sol" and "normalize_code text = normalize_code sol"
  shows "map_of (user_sessions (snd (message_router w uid text st))) uid = None \<or>
     (\<exists>s'. map_of (user_sessions (snd (message_router w uid text st))) uid = Some s' \<and>
           room_number s' = PInt (n + 1) \<and> attempts s' = PInt 0)"
proof -
  let ?st1 = "st\<lparr>user_processing_status := (user_processing_status st)(uid \<mapsto> True)\<rparr>"
  have "message_router w uid text st = run_task uid (code_submission_task w uid text) st"
    using assms(1,3-5) by (intro router_submission) auto
  then have eq: "user_sessions (snd (message_router w uid text st))
                = user_sessions (snd (code_submission_task w uid text ?st1))"
    by (simp add: run_task_sessions)
  have "code_submission_task w uid text ?st1 = correct_answer w uid s ?st1"
    using assms(1,6,7) by (simp add: code_submission_task_def)
  moreover have "map_of (user_sessions ?st1) uid = Some s" using assms(1) by simp
  note correct_answer_session [OF this assms(2), of w]
  ultimately show ?thesis using eq by (auto simp: gone_or_def split: option.splits)
qed

lemma stage_over_a_run:
  "lives_through uid steps st \<Longrightarrow> map_of (user_sessions st) uid = Some s \<Longrightarrow> room_number s = PInt n
     \<Longrightarrow> \<exists>s' m. map_of (user_sessions (handle_updates steps st)) uid = Some s' \<and>
               room_number s' = PInt m \<and> n \<le> m \<and> m \<le> n + int (length steps)"
proof (induction steps arbitrary: st s n)
  case Nil
  then show ?case by simp
next
  case (Cons step steps)
  obtain w upd where step: "step = (w, upd)" by (cases step)
  let ?st' = "snd (handle_update w upd st)"
  from Cons.prems step have
    not_new: "\<not> (upd = TextMessage uid enter_button \<and> py_truthy (is_complete s) \<and>
                user_processing_status st uid \<noteq> Some True)"
    and rest: "lives_through uid steps ?st'"
    by (auto split: if_splits)
  from rest have alive: "map_of (user_sessions ?st') uid \<noteq> None"
    by (cases steps) (auto split: option.splits)
  from step_same_or_next [OF Cons.prems(2,3), of w upd] not_new alive
  obtain s' k where s': "map_of (user_sessions ?st') uid = Some s'" "room_number s' = PInt k"
    and k: "k = n \<or> k = n + 1"
    by auto
  from Cons.IH [OF rest s'] obtain s'' m
    where "map_of (user_sessions (handle_updates steps ?st')) uid = Some s''"
      "room_number s'' = PInt m" "k \<le> m" "m \<le> k + int (length steps)"
    by blast
  with k step show ?case by auto
qed

lemma new_session_flag:
  assumes "str ''is_complete'' \<notin> fst ` set response" and "new_session uid response = Inr s"
  shows "is_complete s = PBool False"
proof -
  let ?kw = "(str ''user_id'', PInt uid) # response"
  have none: "map_of ?kw (str ''is_complete'') = None"
    using assms(1) by (simp add: str_def map_of_eq_None_iff)
  from assms(2) have "RoomSession_init ?kw = Inr s"
    by (simp add: new_session_def split: if_splits)
  then have "is_complete s = kwarg ?kw ''is_complete'' (PBool False)"
    by (auto simp: RoomSession_init_def split: if_splits option.splits)
  with none show ?thesis by (simp add: kwarg_def)
qed

section \<open>Saving and loading\<close>







lemma load_no_file: "session_file st = NoFile \<Longrightarrow> load_sessions_from_file st = (None, st)"
  by (simp add: load_sessions_from_file_def)

lemma load_not_json:
  "session_file st = NotJson \<or> session_file st = FileVanishes
     \<Longrightarrow> load_sessions_from_file st = (None, emit (LogError LoadFailed) (st\<lparr>user_sessions := []\<rparr>))"
  by (auto simp: load_sessions_from_file_def)

section \<open>Evaluating the handlers on concrete inputs\<close>

lemmas example_defs = reliable_def generous_def talkative_def flagging_def room_reply_def
  in_room_def playing_def startup_def

lemmas button_defs = enter_button_def hint_button_def leave_button_def progress_button_def

lemmas handler_defs = message_router_def run_task_def enter_castle_task_def hint_task_def
  code_submission_task_def correct_answer_def wrong_answer_def next_room_def cmd_defs
  valid_room_def new_session_def RoomSession_init_def kwarg_def field_names_def
  active_def save_sessions_to_file_def emit_def mutate_def

section \<open>The claims\<close>

text \<open>
  C1. \<open>code_submission_task\<close> decides correctness by normalizing the submitted text and the
  stored \<open>correct_snippet\<close> with the same function and comparing the results for equality.
  The function, \<open>"".join(code.split())\<close>, removes exactly the whitespace characters, so for
  every submitted text and stored solution the branch for a correct answer is taken if and only
  if the two texts are equal once their whitespace is removed, and the other branch otherwise.
  \<open>"x = 1\n"\<close> matches the solution \<open>"x=1"\<close>; the comparison is case-sensitive, \<open>"X=1"\<close> does
  not match.
\<close>

theorem submission_judged_on_whitespace_free_text:
  "normalize_code text = remove_all_whitespace text \<and>
   (map_of (user_sessions st) uid = Some session \<and> correct_snippet session = PStr solution \<longrightarrow>
      code_submission_task w uid text st =
        (if remove_all_whitespace text = remove_all_whitespace solution
         then correct_answer w uid session st
         else wrong_answer w uid session st)) \<and>
   normalize_code (str ''x = 1'' @ [10]) = normalize_code (str ''x=1'') \<and>
   normalize_code (str ''X=1'') \<noteq> normalize_code (str ''x=1'')"
proof -
  have "code_submission_task w uid text st =
        (if remove_all_whitespace text = remove_all_whitespace solution
         then correct_answer w uid session st
         else wrong_answer w uid session st)"
    if "map_of (user_sessions st) uid = Some session" "correct_snippet session = PStr solution"
    using that by (simp add: code_submission_task_def normalize_code_eq)
  moreover have "normalize_code (str ''x = 1'' @ [10]) = normalize_code (str ''x=1'')"
    by (simp add: normalize_code_eq remove_all_whitespace_def py_isspace_def str_def)
  moreover have "normalize_code (str ''X=1'') \<noteq> normalize_code (str ''x=1'')"
    by (simp add: normalize_code_eq remove_all_whitespace_def py_isspace_def str_def)
  ultimately show ?thesis by (simp add: normalize_code_eq)
qed

theorem submission_judged_on_whitespace_free_text_witness:
  "map_of (user_sessions (playing 1)) 42 = Some (in_room 1) \<and>
   correct_snippet (in_room 1) = PStr (str ''x=1'') \<and>
   remove_all_whitespace (str ''x = 1'' @ [10]) = remove_all_whitespace (str ''x=1'') \<and>
   code_submission_task generous 42 (str ''x = 1'' @ [10]) (playing 1)
     = correct_answer generous 42 (in_room 1) (playing 1)"
proof -
  have session: "map_of (user_sessions (playing 1)) 42 = Some (in_room 1) \<and>
      correct_snippet (in_room 1) = PStr (str ''x=1'')"
    by (simp add: example_defs)
  have equal: "remove_all_whitespace (str ''x = 1'' @ [10]) = remove_all_whitespace (str ''x=1'')"
    by (simp add: remove_all_whitespace_def py_isspace_def str_def)
  from submission_judged_on_whitespace_free_text
         [of "str ''x = 1'' @ [10]" "playing 1" 42 "in_room 1" "str ''x=1''" generous]
       session equal
  show ?thesis by simp
qed




text \<open>
  C3. A user who is not busy and has an active session below the last room (room number at
  most 4) sends a text whose normalization equals that of the stored solution, and the
  generator's answer is not a valid room (\<open>call_groq_api\<close> returns \<open>None\<close> for every failure).
  Then, the Bot API accepting the calls made on the way, the router ends normally, the
  user is told that the game is over, the session is removed from the mapping (it is not
  kept in the room just entered) and, when the file can be written, from the file as well.
\<close>

theorem failed_generation_deletes_session:
  assumes "user_processing_status st uid \<noteq> Some True"
    and "text \<notin> {enter_button, hint_button, leave_button, progress_button}"
    and "map_of (user_sessions st) uid = Some s" and "\<not> py_truthy (is_complete s)"
    and "correct_snippet s = PStr sol" and "normalize_code text = normalize_code sol"
    and "room_number s = PInt n" and "n < 5"
    and "\<not> valid_room (groq_reply w)"
    and "\<forall>c. telegram_ok w c"
    and "message_router w uid text st = (r, st')"
  shows "r = None \<and>
         user_sessions st' = AList.delete uid (user_sessions st) \<and>
         map_of (user_sessions st') uid = None \<and>
         Telegram (ReplyText CastleCollapsed) \<in> set (drop (length (trace st)) (trace st')) \<and>
         (disk_fault w = None \<longrightarrow>
            session_file st' = JsonDoc (sessions_to_save (AList.delete uid (user_sessions st))) \<and>
            trace st' = trace st @
              [Telegram SendChatAction,
               Telegram (ReplyText (RoomComplete (random_choice w mod 10) (PInt (n + 1)))),
               GroqRequest (NextRoomPrompt (PInt (n + 1))),
               LogError (InvalidRoom (groq_reply w)),
               Telegram (ReplyText CastleCollapsed),
               LogInfo SessionsSaved,
               LogInfo (CleanedUp uid)])"
proof -
  let ?st1 = "st\<lparr>user_processing_status := (user_processing_status st)(uid \<mapsto> True)\<rparr>"
  let ?st2 = "emit (Telegram (ReplyText CastleCollapsed))
            (emit (LogError (InvalidRoom (groq_reply w)))
            (emit (GroqRequest (NextRoomPrompt (PInt (n + 1))))
            (emit (Telegram (ReplyText (RoomComplete (random_choice w mod 10) (PInt (n + 1)))))
            (emit (Telegram SendChatAction)
              (mutate uid (\<lambda>s. s\<lparr>attempts := PInt 0\<rparr>)
                 (mutate uid (\<lambda>s. s\<lparr>room_number := PInt (n + 1)\<rparr>) ?st1))))))"
  have "code_submission_task w uid text ?st1 = cleanup_session w uid ?st2"
    using assms(3,5-10) by (intro fatal_task) auto
  then have "code_submission_task w uid text ?st1
               = (fst (cleanup_session w uid ?st2), snd (cleanup_session w uid ?st2))"
    by simp
  from run_submission [OF assms(1-4) assms(11) this]
  have r: "r = fst (cleanup_session w uid ?st2)"
    and st': "st' = (snd (cleanup_session w uid ?st2))
        \<lparr>user_processing_status :=
           (user_processing_status (snd (cleanup_session w uid ?st2)))(uid \<mapsto> False)\<rparr>"
    by blast+
  show ?thesis
    unfolding r st'
    by (simp add: cleanup_result save_file save_trace)
       (simp add: save_sessions_to_file_def split: option.splits)
qed

theorem failed_generation_deletes_session_witness:
  "user_processing_status (playing 1) 42 \<noteq> Some True \<and>
   str ''x = 1'' \<notin> {enter_button, hint_button, leave_button, progress_button} \<and>
   map_of (user_sessions (playing 1)) 42 = Some (in_room 1) \<and>
   \<not> py_truthy (is_complete (in_room 1)) \<and>
   correct_snippet (in_room 1) = PStr (str ''x=1'') \<and>
   normalize_code (str ''x = 1'') = normalize_code (str ''x=1'') \<and>
   room_number (in_room 1) = PInt 1 \<and> (1::int) < 5 \<and>
   \<not> valid_room (groq_reply reliable) \<and>
   fst (message_router reliable 42 (str ''x = 1'') (playing 1)) = None \<and>
   user_sessions (snd (message_router reliable 42 (str ''x = 1'') (playing 1))) = [] \<and>
   session_file (snd (message_router reliable 42 (str ''x = 1'') (playing 1))) = JsonDoc (PDict [])"
proof -
  have h: "user_processing_status (playing 1) 42 \<noteq> Some True"
    "str ''x = 1'' \<notin> {enter_button, hint_button, leave_button, progress_button}"
    "map_of (user_sessions (playing 1)) 42 = Some (in_room 1)"
    "\<not> py_truthy (is_complete (in_room 1))"
    "correct_snippet (in_room 1) = PStr (str ''x=1'')"
    "normalize_code (str ''x = 1'') = normalize_code (str ''x=1'')"
    "room_number (in_room 1) = PInt 1" "(1::int) < 5"
    "\<not> valid_room (groq_reply reliable)"
    "\<forall>c. telegram_ok reliable c"
    by (simp_all add: example_defs button_defs str_def valid_room_def normalize_code_eq
        remove_all_whitespace_def py_isspace_def)
  from failed_generation_deletes_session [OF h surjective_pairing]
  have "fst (message_router reliable 42 (str ''x = 1'') (playing 1)) = None \<and>
      user_sessions (snd (message_router reliable 42 (str ''x = 1'') (playing 1))) = [] \<and>
      session_file (snd (message_router reliable 42 (str ''x = 1'') (playing 1))) = JsonDoc (PDict [])"
    by (simp add: example_defs sessions_to_save_def)
  with h show ?thesis by simp
qed



text \<open>
  C5. Take any session, with an integer room number \<open>n\<close>, and any update of any user, handled
  in any environment. Afterwards the user of the session has no session, or has a session in
  room \<open>n\<close>, or has a session in room \<open>n + 1\<close> with the attempt count 0, or the router has
  started a new game in place of a session flagged complete (another session, which begins
  its own life). Room \<open>n + 1\<close> is reached only by a text of that user whose normalization
  equals that of the stored solution; and every such text, sent while the user is not busy
  and the session is active, leaves the session in room \<open>n + 1\<close> with the attempt count 0,
  unless it ends the session. Over a whole run of updates through which the session lives,
  the room number never falls, and it rises by at most one per update.
\<close>

theorem stage_index_only_advances:
  "map_of (user_sessions st) uid = Some s \<and> room_number s = PInt n \<longrightarrow>
     (map_of (user_sessions (snd (handle_update w upd st))) uid = None \<or>
      (\<exists>s'. map_of (user_sessions (snd (handle_update w upd st))) uid = Some s' \<and>
            room_number s' = PInt n \<and> is_complete s' = is_complete s) \<or>
      (\<exists>s' text sol. map_of (user_sessions (snd (handle_update w upd st))) uid = Some s' \<and>
            room_number s' = PInt (n + 1) \<and> attempts s' = PInt 0 \<and>
            is_complete s' = is_complete s \<and> upd = TextMessage uid text \<and>
            correct_snippet s = PStr sol \<and> normalize_code text = normalize_code sol) \<or>
      (upd = TextMessage uid enter_button \<and> py_truthy (is_complete s) \<and>
       user_processing_status st uid \<noteq> Some True)) \<and>
     (user_processing_status st uid \<noteq> Some True \<and>
      msg \<notin> {enter_button, hint_button, leave_button, progress_button} \<and>
      \<not> py_truthy (is_complete s) \<and>
      correct_snippet s = PStr solution \<and> normalize_code msg = normalize_code solution \<longrightarrow>
        map_of (user_sessions (snd (handle_update w (TextMessage uid msg) st))) uid = None \<or>
        (\<exists>s'. map_of (user_sessions (snd (handle_update w (TextMessage uid msg) st))) uid = Some s' \<and>
              room_number s' = PInt (n + 1) \<and> attempts s' = PInt 0)) \<and>
     (lives_through uid steps st \<longrightarrow>
        (\<exists>s' m. map_of (user_sessions (handle_updates steps st)) uid = Some s' \<and>
                room_number s' = PInt m \<and> n \<le> m \<and> m \<le> n + int (length steps)))"
proof (intro impI, elim conjE)
  assume s: "map_of (user_sessions st) uid = Some s" and n: "room_number s = PInt n"
  note step = step_same_or_next [OF s n, of w upd]
  have advance: "map_of (user_sessions (snd (handle_update w (TextMessage uid msg) st))) uid = None \<or>
        (\<exists>s'. map_of (user_sessions (snd (handle_update w (TextMessage uid msg) st))) uid = Some s' \<and>
              room_number s' = PInt (n + 1) \<and> attempts s' = PInt 0)"
    if "user_processing_status st uid \<noteq> Some True"
      "msg \<notin> {enter_button, hint_button, leave_button, progress_button}"
      "\<not> py_truthy (is_complete s)"
      "correct_snippet s = PStr solution" "normalize_code msg = normalize_code solution"
    using successful_submission_advances [OF s n that, of w] by simp
  have run: "\<exists>s' m. map_of (user_sessions (handle_updates steps st)) uid = Some s' \<and>
                room_number s' = PInt m \<and> n \<le> m \<and> m \<le> n + int (length steps)"
    if "lives_through uid steps st"
    using that s n by (rule stage_over_a_run)
  show "(map_of (user_sessions (snd (handle_update w upd st))) uid = None \<or>
      (\<exists>s'. map_of (user_sessions (snd (handle_update w upd st))) uid = Some s' \<and>
            room_number s' = PInt n \<and> is_complete s' = is_complete s) \<or>
      (\<exists>s' text sol. map_of (user_sessions (snd (handle_update w upd st))) uid = Some s' \<and>
            room_number s' = PInt (n + 1) \<and> attempts s' = PInt 0 \<and>
            is_complete s' = is_complete s \<and> upd = TextMessage uid text \<and>
            correct_snippet s = PStr sol \<and> normalize_code text = normalize_code sol) \<or>
      (upd = TextMessage uid enter_button \<and> py_truthy (is_complete s) \<and>
       user_processing_status st uid \<noteq> Some True)) \<and>
     (user_processing_status st uid \<noteq> Some True \<and>
      msg \<notin> {enter_button, hint_button, leave_button, progress_button} \<and>
      \<not> py_truthy (is_complete s) \<and>
      correct_snippet s = PStr solution \<and> normalize_code msg = normalize_code solution \<longrightarrow>
        map_of (user_sessions (snd (handle_update w (TextMessage uid msg) st))) uid = None \<or>
        (\<exists>s'. map_of (user_sessions (snd (handle_update w (TextMessage uid msg) st))) uid = Some s' \<and>
              room_number s' = PInt (n + 1) \<and> attempts s' = PInt 0)) \<and>
     (lives_through uid steps st \<longrightarrow>
        (\<exists>s' m. map_of (user_sessions (handle_updates steps st)) uid = Some s' \<and>
                room_number s' = PInt m \<and> n \<le> m \<and> m \<le> n + int (length steps)))"
    using step advance run by blast
qed

theorem stage_index_only_advances_witness:
  "map_of (user_sessions (playing 1)) 42 = Some (in_room 1) \<and>
   room_number (in_room 1) = PInt 1 \<and>
   lives_through 42 [(generous, TextMessage 42 (str ''x=2'')), (generous, TextMessage 42 (str ''x = 1''))]
     (playing 1) \<and>
   map_of (user_sessions (snd (handle_update generous (TextMessage 42 (str ''x = 1'')) (playing 1)))) 42
     = Some \<lparr>user_id = PInt 42, room_number = PInt 2, description = PStr (str ''a cold cellar''),
           buggy_snippet = PStr (str ''y==''), correct_snippet = PStr (str ''y=2''),
           attempts = PInt 0, is_complete = PBool False\<rparr> \<and>
   (\<exists>s' m. map_of (user_sessions (handle_updates
              [(generous, TextMessage 42 (str ''x=2'')), (generous, TextMessage 42 (str ''x = 1''))]
              (playing 1))) 42 = Some s' \<and>
           room_number s' = PInt m \<and> 1 \<le> m \<and> m \<le> 1 + int (length
              [(generous, TextMessage 42 (str ''x=2'')), (generous, TextMessage 42 (str ''x = 1''))]))"
proof -
  have given: "map_of (user_sessions (playing 1)) 42 = Some (in_room 1) \<and>
      room_number (in_room 1) = PInt 1"
    by (simp add: example_defs)
  have alive: "lives_through 42
      [(generous, TextMessage 42 (str ''x=2'')), (generous, TextMessage 42 (str ''x = 1''))] (playing 1)"
    by (simp add: handler_defs example_defs button_defs str_def normalize_code_eq
        remove_all_whitespace_def py_isspace_def)
  have advanced: "map_of (user_sessions
        (snd (handle_update generous (TextMessage 42 (str ''x = 1'')) (playing 1)))) 42
     = Some \<lparr>user_id = PInt 42, room_number = PInt 2, description = PStr (str ''a cold cellar''),
           buggy_snippet = PStr (str ''y==''), correct_snippet = PStr (str ''y=2''),
           attempts = PInt 0, is_complete = PBool False\<rparr>"
    by (simp add: handler_defs example_defs button_defs str_def normalize_code_eq
        remove_all_whitespace_def py_isspace_def)
  from stage_index_only_advances [of "playing 1" 42 "in_room 1" 1 generous _ _ _
      "[(generous, TextMessage 42 (str ''x=2'')), (generous, TextMessage 42 (str ''x = 1''))]"]
    given alive advanced
  show ?thesis by blast
qed





text \<open>
  C8, as stated, fails. When the file is missing, the load at startup returns with the empty
  mapping and without an exception, but it logs nothing: the test \<open>os.path.exists\<close> skips
  the whole block. And contents that are damaged in another way than being invalid JSON
  end the load with an exception that \<open>load_sessions_from_file\<close> does not catch: a JSON
  document that is not an object, an entry without \<open>user_id\<close>, bytes that are not UTF-8.
\<close>

theorem load_silent_or_raising:
  "load_sessions_from_file (startup NoFile) = (None, startup NoFile) \<and>
   trace (snd (load_sessions_from_file (startup NoFile))) = [] \<and>
   fst (load_sessions_from_file (startup (JsonDoc (PList [])))) = Some AttributeErrorNoMethod \<and>
   fst (load_sessions_from_file
         (startup (JsonDoc (PDict [(str ''42'', PDict [(str ''room_number'', PInt 2)])]))))
     = Some TypeError \<and>
   fst (load_sessions_from_file (startup BadUtf8)) = Some UnicodeDecodeError"
  by (simp add: load_sessions_from_file_def startup_def RoomSession_init_def field_names_def str_def)

text \<open>
  C8, amended. When the file is missing, the load at startup leaves the mapping empty,
  logs nothing and raises nothing. When the file cannot be parsed as JSON (or disappears
  between the existence test and \<open>open\<close>), the load leaves the mapping empty, logs the
  error and raises nothing.
\<close>

theorem load_survives_missing_or_unparsable_file:
  "load_sessions_from_file (startup NoFile) = (None, startup NoFile) \<and>
   user_sessions (startup NoFile) = [] \<and>
   (f = NotJson \<or> f = FileVanishes \<longrightarrow>
      load_sessions_from_file (startup f) = (None, (startup f)\<lparr>trace := [LogError LoadFailed]\<rparr>) \<and>
      user_sessions (snd (load_sessions_from_file (startup f))) = []) \<and>
   (session_file st = NoFile \<longrightarrow> load_sessions_from_file st = (None, st)) \<and>
   (session_file st = NotJson \<or> session_file st = FileVanishes \<longrightarrow>
      load_sessions_from_file st = (None, emit (LogError LoadFailed) (st\<lparr>user_sessions := []\<rparr>)))"
  using load_no_file [of st] load_not_json [of st]
  by (auto simp: load_sessions_from_file_def startup_def emit_def)

theorem load_survives_missing_or_unparsable_file_witness:
  "session_file (startup NotJson) = NotJson \<and>
   load_sessions_from_file (startup NotJson)
     = (None, (startup NotJson)\<lparr>trace := [LogError LoadFailed]\<rparr>) \<and>
   user_sessions (snd (load_sessions_from_file (startup NotJson))) = []"
  using load_survives_missing_or_unparsable_file [of NotJson "startup NotJson"]
  by (simp add: startup_def)

text \<open>
  C9 fails on the code. \<open>enter_castle_task\<close> checks only that the three keys it asks for are
  in the generator's answer and then passes the whole answer to the constructor, so an answer
  that also carries \<open>is_complete\<close> creates a session whose flag is true. The session is stored
  and saved, and the router treats its user as having no game: a submission is answered with
  the reply for a user outside the castle. (\<open>code_submission_task\<close> copies the three keys one
  by one and no handler assigns the flag: \<open>step_same_or_next\<close>; without the key the new
  session has the flag false: \<open>new_session_flag\<close>.)
\<close>

theorem generated_room_can_flag_completion:
  "valid_room (groq_reply flagging) \<and>
   fst (message_router flagging 42 enter_button (startup NoFile)) = None \<and>
   map_of (user_sessions (snd (message_router flagging 42 enter_button (startup NoFile)))) 42 =
     Some \<lparr>user_id = PInt 42, room_number = PInt 1, description = PStr (str ''a cold cellar''),
           buggy_snippet = PStr (str ''y==''), correct_snippet = PStr (str ''y=2''),
           attempts = PInt 0, is_complete = PBool True\<rparr> \<and>
   last (trace (snd (message_router reliable 42 (str ''y=2'')
                  (snd (message_router flagging 42 enter_button (startup NoFile))))))
     = Telegram (ReplyText EchoLost)"
  by (simp add: handler_defs example_defs button_defs str_def)

text \<open>
  C10. Under the dispatch condition of the router (a session exists for the user and its
  completion flag is false) the unguarded lookups \<open>user_sessions.get(user_id)\<close> of the hint
  and submission tasks do not return \<open>None\<close>, so reading \<open>correct_snippet\<close> and
  \<open>buggy_snippet\<close> from the result cannot fail: whatever the message, the state and the
  environment, the router never ends with the \<open>AttributeError\<close> of a missing session; and
  when it starts the hint or the submission task, the session is there in the state the
  task starts in. (Called without a session the tasks do raise it:
  \<open>submission_without_session\<close>, \<open>hint_without_session\<close>.)
\<close>

theorem dispatched_task_finds_its_session:
  "fst (message_router w uid text st) \<noteq> Some AttributeErrorNoSession \<and>
   (user_processing_status st uid \<noteq> Some True \<and> task_to_run st uid text = Some t \<and> t \<noteq> EnterCastle
      \<longrightarrow> active (map_of (user_sessions st) uid)
        \<and> map_of (user_sessions (st\<lparr>user_processing_status :=
                                       (user_processing_status st)(uid \<mapsto> True)\<rparr>)) uid \<noteq> None
        \<and> message_router w uid text st = run_task uid (coroutine w uid text t) st
        \<and> fst (coroutine w uid text t
                 (st\<lparr>user_processing_status := (user_processing_status st)(uid \<mapsto> True)\<rparr>))
              \<noteq> Some AttributeErrorNoSession)"
proof -
  let ?st = "st\<lparr>user_processing_status := (user_processing_status st)(uid \<mapsto> True)\<rparr>"
  have "active (map_of (user_sessions st) uid)"
    if "task_to_run st uid text = Some t" "t \<noteq> EnterCastle"
    using that by (auto simp: task_to_run_def Let_def split: if_splits)
  moreover have "map_of (user_sessions ?st) uid \<noteq> None"
    if "active (map_of (user_sessions st) uid)"
    using that by (auto simp: active_def split: option.splits)
  moreover have "fst (coroutine w uid text t ?st) \<noteq> Some AttributeErrorNoSession"
    if "map_of (user_sessions ?st) uid \<noteq> None"
    using that by (cases t) (simp_all add: enter_finds_session hint_finds_session submission_finds_session)
  ultimately show ?thesis
    using router_finds_session [of w uid _ st] router_dispatch [of st uid _ t w] by blast
qed

theorem dispatched_task_finds_its_session_witness:
  "user_processing_status (playing 1) 42 \<noteq> Some True \<and>
   task_to_run (playing 1) 42 (str ''x=2'') = Some CodeSubmission \<and>
   CodeSubmission \<noteq> EnterCastle \<and>
   active (map_of (user_sessions (playing 1)) 42) \<and>
   fst (message_router reliable 42 (str ''x=2'') (playing 1)) \<noteq> Some AttributeErrorNoSession"
proof -
  have given: "user_processing_status (playing 1) 42 \<noteq> Some True \<and>
      task_to_run (playing 1) 42 (str ''x=2'') = Some CodeSubmission \<and> CodeSubmission \<noteq> EnterCastle"
    by (simp add: playing_def startup_def in_room_def task_to_run_def active_def str_def
        enter_button_def hint_button_def leave_button_def progress_button_def)
  with dispatched_task_finds_its_session [of reliable 42 "str ''x=2''" "playing 1" CodeSubmission]
  show ?thesis by blast
qed

end
